theory Spec2Isabelle
  imports Main
begin

section \<open>The database touched by cancel-case-42.py\<close>

text \<open>
  The script runs two SQL statements against two tables it does not create. A text
  column holds a string or NULL (\<open>None\<close>). Python strings are sequences of characters;
  here each \<open>char\<close> of a \<open>string\<close> stands for one Python character, so \<open>take 50\<close> is the
  slice \<open>[:50]\<close>.
\<close>

type_synonym sql_text = "string option"

type_synonym timestamp = int

text \<open>
  Modelled from the spec: the schema of the two tables is not part of the repository.
  The table of cases has the columns the script names (\<open>id\<close>, \<open>case_name\<close>, \<open>status\<close>,
  \<open>portal_url\<close>, \<open>last_portal_status\<close>); every other column of a row is the extension
  part of the record. The column \<open>id\<close> is called \<open>id_col\<close> here.
\<close>

record case_row =
  id_col :: int
  case_name :: sql_text
  status :: sql_text
  portal_url :: sql_text
  last_portal_status :: sql_text

text \<open>
  Modelled from the spec: a row of \<open>activity_log\<close>, with the four columns the INSERT names.
\<close>

record activity_row =
  case_id :: int
  event_type :: sql_text
  description :: sql_text
  created_at :: timestamp

text \<open>A table is the list of its rows; nothing is assumed about keys.\<close>

record 'x database =
  cases :: "'x case_row_scheme list"
  activity_log :: "activity_row list"

section \<open>The outside world of one run\<close>

datatype db_call =
  CONNECT | CURSOR | EXECUTE_UPDATE | FETCHONE | EXECUTE_INSERT | COMMIT | CUR_CLOSE | CONN_CLOSE

text \<open>
  Everything the run reads from outside and that is not the database content:
  the environment variable, whether \<open>psycopg2.connect\<close> raises on a given argument
  (\<open>Some msg\<close>: it raises an exception whose text is \<open>msg\<close>), whether each later driver
  call raises, and the clock read by \<open>datetime.now()\<close>.
\<close>

record world =
  DATABASE_URL :: "string option"
  connect :: "string option \<Rightarrow> string option"
  fault :: "db_call \<Rightarrow> string option"
  now :: timestamp

section \<open>Exceptions, the trace and the state of a run\<close>

text \<open>An instance of Python's \<open>Exception\<close>; the string is \<open>str(e)\<close>.\<close>

datatype py_exception = Exception string

fun str_exception :: "py_exception \<Rightarrow> string" where
  "str_exception (Exception m) = m"

text \<open>
  What the run does that is visible from outside, in order: a call of \<open>print\<close> with its
  text, or a driver call with whether it returned (\<open>True\<close>) or raised (\<open>False\<close>).
\<close>

datatype event = Print string | Call db_call bool

type_synonym returned_row = "int \<times> sql_text \<times> sql_text"

text \<open>
  \<open>committed\<close> is the database every other session sees; \<open>txn\<close> is what this
  connection sees, the committed content with its own uncommitted statements applied
  (psycopg2 opens a transaction at the first \<open>execute\<close>; the script does not turn
  autocommit on). \<open>result_set\<close> holds the rows of RETURNING not yet fetched,
  \<open>result\<close> the Python variable of that name (\<open>None\<close> is Python's \<open>None\<close>).
\<close>

record 'x state =
  committed :: "'x database"
  txn :: "'x database"
  result_set :: "returned_row list"
  result :: "returned_row option"
  trace :: "event list"
  conn_open :: bool
  cur_open :: bool

definition start :: "'x database \<Rightarrow> 'x state" where
  "start db = \<lparr>committed = db, txn = db, result_set = [], result = None, trace = [],
     conn_open = False, cur_open = False\<rparr>"

definition log :: "event \<Rightarrow> 'x state \<Rightarrow> 'x state" where
  "log e s = s\<lparr>trace := trace s @ [e]\<rparr>"

text \<open>A driver call that raises changes nothing but the trace.\<close>

definition driver :: "world \<Rightarrow> db_call \<Rightarrow> ('x state \<Rightarrow> 'x state) \<Rightarrow> 'x state
    \<Rightarrow> 'x state \<times> py_exception option" where
  "driver w c effect s =
     (case fault w c of
        Some m \<Rightarrow> (log (Call c False) s, Some (Exception m))
      | None \<Rightarrow> (log (Call c True) (effect s), None))"

section \<open>The two SQL statements\<close>

definition cancel_row :: "'x case_row_scheme \<Rightarrow> 'x case_row_scheme" where
  "cancel_row r = r\<lparr>status := Some ''sent'', portal_url := None,
     last_portal_status := Some ''Cancelled - Odessa account locked''\<rparr>"

definition update_cases :: "'x case_row_scheme list \<Rightarrow> 'x case_row_scheme list" where
  "update_cases rs = map (\<lambda>r. if id_col r = 42 then cancel_row r else r) rs"

definition returning :: "'x case_row_scheme list \<Rightarrow> returned_row list" where
  "returning rs =
     map (\<lambda>r. (id_col r, case_name r, status r))
       (filter (\<lambda>r. id_col r = 42) (update_cases rs))"

definition execute_update :: "'x state \<Rightarrow> 'x state" where
  "execute_update s =
     s\<lparr>txn := (txn s)\<lparr>cases := update_cases (cases (txn s))\<rparr>,
       result_set := returning (cases (txn s))\<rparr>"

definition new_activity :: "world \<Rightarrow> activity_row" where
  "new_activity w = \<lparr>case_id = 42, event_type = Some ''portal_cancelled'',
     description = Some ''Portal submission cancelled - Odessa account locked'',
     created_at = now w\<rparr>"

definition execute_insert :: "world \<Rightarrow> 'x state \<Rightarrow> 'x state" where
  "execute_insert w s =
     s\<lparr>txn := (txn s)\<lparr>activity_log := activity_log (txn s) @ [new_activity w]\<rparr>\<rparr>"

definition fetchone :: "'x state \<Rightarrow> 'x state" where
  "fetchone s =
     (case result_set s of
        [] \<Rightarrow> s\<lparr>result := None\<rparr>
      | r # rs \<Rightarrow> s\<lparr>result := Some r, result_set := rs\<rparr>)"

section \<open>Formatting\<close>

function str_nat :: "nat \<Rightarrow> string" where
  "str_nat n =
     (if n < 10 then [''0123456789'' ! n]
      else str_nat (n div 10) @ [''0123456789'' ! (n mod 10)])"
  by pat_completeness auto
termination
  by (relation "measure (\<lambda>n. n)") auto

definition str_int :: "int \<Rightarrow> string" where
  "str_int i = (if i < 0 then ''-'' @ str_nat (nat (- i)) else str_nat (nat i))"

text \<open>How an f-string shows a text value: the string itself, or \<open>None\<close>.\<close>

fun format_text :: "sql_text \<Rightarrow> string" where
  "format_text None = ''None''"
| "format_text (Some t) = t"

definition not_subscriptable :: py_exception where
  "not_subscriptable =
     Exception ([CHR 0x27] @ ''NoneType'' @ [CHR 0x27] @ '' object is not subscriptable'')"

text \<open>
  The first \<open>print\<close>. \<open>result[0]\<close> raises TypeError when \<open>fetchone\<close> returned
  \<open>None\<close>, and \<open>result[1][:50]\<close> raises it when the name is NULL.
\<close>

definition print_updated :: "'x state \<Rightarrow> 'x state \<times> py_exception option" where
  "print_updated s =
     (case result s of
        None \<Rightarrow> (s, Some not_subscriptable)
      | Some (i, name, st) \<Rightarrow>
          (case name of
             None \<Rightarrow> (s, Some not_subscriptable)
           | Some n \<Rightarrow>
               (log (Print (''Case 42 updated: ID='' @ str_int i @ '', Name='' @ take 50 n
                      @ '', Status='' @ format_text st)) s, None)))"

section \<open>The script\<close>

datatype stmt =
  Connect | Cursor | Update | Fetchone | Print_updated | Insert | Commit | Print_logged
  | Cur_close | Conn_close | Print_success

text \<open>
  The statements of the \<open>try\<close> block, one equation each. The run is the only session
  that writes to the database while it lasts, and the tables have no triggers: the
  UPDATE changes the rows it matches and nothing else. A COMMIT that raises has
  committed nothing.
\<close>

fun exec :: "world \<Rightarrow> stmt \<Rightarrow> 'x state \<Rightarrow> 'x state \<times> py_exception option" where
  "exec w Connect s =
     (case connect w (DATABASE_URL w) of
        Some m \<Rightarrow> (log (Call CONNECT False) s, Some (Exception m))
      | None \<Rightarrow> (log (Call CONNECT True) (s\<lparr>conn_open := True, txn := committed s\<rparr>), None))"
| "exec w Cursor s = driver w CURSOR (\<lambda>s. s\<lparr>cur_open := True\<rparr>) s"
| "exec w Update s = driver w EXECUTE_UPDATE execute_update s"
| "exec w Fetchone s = driver w FETCHONE fetchone s"
| "exec w Print_updated s = print_updated s"
| "exec w Insert s = driver w EXECUTE_INSERT (execute_insert w) s"
| "exec w Commit s = driver w COMMIT (\<lambda>s. s\<lparr>committed := txn s\<rparr>) s"
| "exec w Print_logged s = (log (Print ''Activity logged for case 42'') s, None)"
| "exec w Cur_close s = driver w CUR_CLOSE (\<lambda>s. s\<lparr>cur_open := False\<rparr>) s"
| "exec w Conn_close s = driver w CONN_CLOSE (\<lambda>s. s\<lparr>conn_open := False\<rparr>) s"
| "exec w Print_success s =
     (log (Print ''Successfully cancelled case 42 portal submission'') s, None)"

text \<open>Statements run in order; the first exception ends the block.\<close>

fun exec_all :: "world \<Rightarrow> stmt list \<Rightarrow> 'x state \<Rightarrow> 'x state \<times> py_exception option" where
  "exec_all w [] s = (s, None)"
| "exec_all w (c # cs) s =
     (case exec w c s of
        (s', Some e) \<Rightarrow> (s', Some e)
      | (s', None) \<Rightarrow> exec_all w cs s')"

definition try_body :: "stmt list" where
  "try_body = [Connect, Cursor, Update, Fetchone, Print_updated, Insert, Commit,
     Print_logged, Cur_close, Conn_close, Print_success]"

definition try_block :: "world \<Rightarrow> 'x database \<Rightarrow> 'x state \<times> py_exception option" where
  "try_block w db = exec_all w try_body (start db)"

text \<open>
  How the process ends: the interpreter reaches the end of the script, or an exception
  leaves the script and the interpreter prints a traceback.
\<close>

datatype ending = Normal | Traceback py_exception

fun exit_status :: "ending \<Rightarrow> nat" where
  "exit_status Normal = 0"
| "exit_status (Traceback e) = 1"

text \<open>
  \<open>except Exception as e: print(f"Error: {e}")\<close>. When the process ends, the server
  drops what the connection had not committed, so \<open>committed\<close> of the final state is
  the database after the run.
\<close>

definition main :: "world \<Rightarrow> 'x database \<Rightarrow> 'x state \<times> ending" where
  "main w db =
     (case try_block w db of
        (s, None) \<Rightarrow> (s, Normal)
      | (s, Some (Exception m)) \<Rightarrow> (log (Print (''Error: '' @ m)) s, Normal))"

definition stdout :: "'x state \<times> ending \<Rightarrow> string list" where
  "stdout r = concat (map (\<lambda>e. case e of Print l \<Rightarrow> [l] | Call c b \<Rightarrow> []) (trace (fst r)))"

definition calls :: "'x state \<times> ending \<Rightarrow> (db_call \<times> bool) list" where
  "calls r = concat (map (\<lambda>e. case e of Print l \<Rightarrow> [] | Call c b \<Rightarrow> [(c, b)]) (trace (fst r)))"

definition events :: "'x state \<times> ending \<Rightarrow> event list" where
  "events r = trace (fst r)"

definition database_after :: "'x state \<times> ending \<Rightarrow> 'x database" where
  "database_after r = committed (fst r)"

text \<open>A run is successful when the \<open>try\<close> block ends without an exception.\<close>

definition succeeded :: "world \<Rightarrow> 'x database \<Rightarrow> bool" where
  "succeeded w db = (snd (try_block w db) = None)"

text \<open>The database with both statements applied.\<close>

definition both_applied :: "world \<Rightarrow> 'x database \<Rightarrow> 'x database" where
  "both_applied w db =
     \<lparr>cases = update_cases (cases db), activity_log = activity_log db @ [new_activity w]\<rparr>"

text \<open>The part of a trace before the first call of \<open>c\<close>.\<close>

fun is_call :: "db_call \<Rightarrow> event \<Rightarrow> bool" where
  "is_call c (Call c' b) = (c = c')"
| "is_call c (Print l) = False"

definition before :: "db_call \<Rightarrow> event list \<Rightarrow> event list" where
  "before c t = takeWhile (\<lambda>e. \<not> is_call c e) t"

definition called :: "db_call \<Rightarrow> event list \<Rightarrow> bool" where
  "called c t = (\<exists>e \<in> set t. is_call c e)"

definition confirmation :: "string \<Rightarrow> string" where
  "confirmation shown = ''Case 42 updated: ID=42, Name='' @ shown @ '', Status=sent''"

section \<open>Example runs\<close>

text \<open>
  A world in which the driver accepts the connection string and no call raises, and
  worlds that differ from it in one point. The rows of the example database carry one
  more column, a text.
\<close>

definition quiet :: world where
  "quiet = \<lparr>DATABASE_URL = Some ''postgresql://autobot@db.internal/autobot'',
     connect = (\<lambda>dsn. case dsn of None \<Rightarrow> Some ''missing dsn and no parameters''
                        | Some u \<Rightarrow> None),
     fault = (\<lambda>c. None), now = 1718000000\<rparr>"

definition no_dsn :: world where
  "no_dsn = quiet\<lparr>DATABASE_URL := None\<rparr>"

text \<open>
  A world whose driver takes an absent connection string and connects by its own
  defaults: the variable is unset, and no call raises.
\<close>

definition lenient :: world where
  "lenient = quiet\<lparr>DATABASE_URL := None, connect := (\<lambda>dsn. None)\<rparr>"

definition insert_rejected :: world where
  "insert_rejected = quiet\<lparr>fault := (\<lambda>c. if c = EXECUTE_INSERT
     then Some ''permission denied for table activity_log'' else None)\<rparr>"

definition commit_lost :: world where
  "commit_lost = quiet\<lparr>fault := (\<lambda>c. if c = COMMIT
     then Some ''server closed the connection unexpectedly'' else None)\<rparr>"

definition later :: world where
  "later = quiet\<lparr>now := 1718000060\<rparr>"

definition row41 :: "sql_text case_row_scheme" where
  "row41 = \<lparr>id_col = 41, case_name = Some ''Midland County Sheriff dispatch logs'',
     status = Some ''portal_in_progress'',
     portal_url = Some ''https://midland.example.org/requests/77'',
     last_portal_status = Some ''Submitted'', \<dots> = Some ''records@midland.example.org''\<rparr>"

definition row42 :: "sql_text case_row_scheme" where
  "row42 = \<lparr>id_col = 42,
     case_name = Some ''Odessa Police Department body camera footage, incident 2024-117'',
     status = Some ''portal_in_progress'',
     portal_url = Some ''https://odessa.example.org/portal/1093'',
     last_portal_status = Some ''Login required'', \<dots> = None\<rparr>"

definition db0 :: "sql_text database" where
  "db0 = \<lparr>cases = [row41, row42], activity_log = []\<rparr>"

definition db_without_42 :: "sql_text database" where
  "db_without_42 = \<lparr>cases = [row41], activity_log = []\<rparr>"

section \<open>Symbolic execution of the script\<close>

lemmas run_defs = main_def try_block_def try_body_def start_def driver_def log_def
  execute_update_def execute_insert_def fetchone_def print_updated_def both_applied_def

lemma str_int_42: "str_int 42 = ''42''"
  by (simp add: str_int_def)

lemma returning_eq:
  "returning rs =
     map (\<lambda>r. (42, case_name r, Some ''sent'')) (filter (\<lambda>r. id_col r = 42) rs)"
  by (induction rs) (simp_all add: returning_def update_cases_def cancel_row_def)

lemma returning_none:
  "find (\<lambda>r. id_col r = 42) rs = None \<Longrightarrow> returning rs = []"
  by (simp add: returning_eq find_None_iff filter_empty_conv)

lemma returning_some:
  "find (\<lambda>r. id_col r = 42) rs = Some r \<Longrightarrow>
   \<exists>rest. returning rs = (42, case_name r, Some ''sent'') # rest"
  by (induction rs) (auto simp: returning_eq split: if_splits)

lemma run_connect_raises:
  assumes "connect w (DATABASE_URL w) = Some m"
  shows "trace (fst (main w db)) = [Call CONNECT False, Print (''Error: '' @ m)]"
    and "committed (fst (main w db)) = db"
    and "snd (try_block w db) = Some (Exception m)"
  using assms by (simp_all add: run_defs)

lemma run_cursor_raises:
  assumes "connect w (DATABASE_URL w) = None" "fault w CURSOR = Some m"
  shows "trace (fst (main w db)) =
      [Call CONNECT True, Call CURSOR False, Print (''Error: '' @ m)]"
    and "committed (fst (main w db)) = db"
    and "snd (try_block w db) = Some (Exception m)"
  using assms by (simp_all add: run_defs)

lemma run_update_raises:
  assumes "connect w (DATABASE_URL w) = None" "fault w CURSOR = None"
    "fault w EXECUTE_UPDATE = Some m"
  shows "trace (fst (main w db)) =
      [Call CONNECT True, Call CURSOR True, Call EXECUTE_UPDATE False,
       Print (''Error: '' @ m)]"
    and "committed (fst (main w db)) = db"
    and "snd (try_block w db) = Some (Exception m)"
  using assms by (simp_all add: run_defs)

lemma run_fetchone_raises:
  assumes "connect w (DATABASE_URL w) = None" "fault w CURSOR = None"
    "fault w EXECUTE_UPDATE = None" "fault w FETCHONE = Some m"
  shows "trace (fst (main w db)) =
      [Call CONNECT True, Call CURSOR True, Call EXECUTE_UPDATE True, Call FETCHONE False,
       Print (''Error: '' @ m)]"
    and "committed (fst (main w db)) = db"
    and "snd (try_block w db) = Some (Exception m)"
  using assms by (simp_all add: run_defs)

lemma run_no_row:
  assumes "connect w (DATABASE_URL w) = None" "fault w CURSOR = None"
    "fault w EXECUTE_UPDATE = None" "fault w FETCHONE = None"
    "find (\<lambda>r. id_col r = 42) (cases db) = None"
  shows "trace (fst (main w db)) =
      [Call CONNECT True, Call CURSOR True, Call EXECUTE_UPDATE True, Call FETCHONE True,
       Print (''Error: '' @ str_exception not_subscriptable)]"
    and "committed (fst (main w db)) = db"
    and "snd (try_block w db) = Some not_subscriptable"
  using assms by (simp_all add: run_defs returning_none not_subscriptable_def)

lemma run_null_name:
  assumes "connect w (DATABASE_URL w) = None" "fault w CURSOR = None"
    "fault w EXECUTE_UPDATE = None" "fault w FETCHONE = None"
    "find (\<lambda>r. id_col r = 42) (cases db) = Some r" "case_name r = None"
  shows "trace (fst (main w db)) =
      [Call CONNECT True, Call CURSOR True, Call EXECUTE_UPDATE True, Call FETCHONE True,
       Print (''Error: '' @ str_exception not_subscriptable)]"
    and "committed (fst (main w db)) = db"
    and "snd (try_block w db) = Some not_subscriptable"
  using assms returning_some [of "cases db" r]
  by (auto simp: run_defs not_subscriptable_def)

lemma run_insert_raises:
  assumes "connect w (DATABASE_URL w) = None" "fault w CURSOR = None"
    "fault w EXECUTE_UPDATE = None" "fault w FETCHONE = None"
    "find (\<lambda>r. id_col r = 42) (cases db) = Some r" "case_name r = Some n"
    "fault w EXECUTE_INSERT = Some m"
  shows "trace (fst (main w db)) =
      [Call CONNECT True, Call CURSOR True, Call EXECUTE_UPDATE True, Call FETCHONE True,
       Print (confirmation (take 50 n)), Call EXECUTE_INSERT False,
       Print (''Error: '' @ m)]"
    and "committed (fst (main w db)) = db"
    and "snd (try_block w db) = Some (Exception m)"
  using assms returning_some [of "cases db" r]
  by (auto simp: run_defs str_int_42 confirmation_def)

lemma run_commit_raises:
  assumes "connect w (DATABASE_URL w) = None" "fault w CURSOR = None"
    "fault w EXECUTE_UPDATE = None" "fault w FETCHONE = None"
    "find (\<lambda>r. id_col r = 42) (cases db) = Some r" "case_name r = Some n"
    "fault w EXECUTE_INSERT = None" "fault w COMMIT = Some m"
  shows "trace (fst (main w db)) =
      [Call CONNECT True, Call CURSOR True, Call EXECUTE_UPDATE True, Call FETCHONE True,
       Print (confirmation (take 50 n)), Call EXECUTE_INSERT True, Call COMMIT False,
       Print (''Error: '' @ m)]"
    and "committed (fst (main w db)) = db"
    and "snd (try_block w db) = Some (Exception m)"
  using assms returning_some [of "cases db" r]
  by (auto simp: run_defs str_int_42 confirmation_def)

lemma run_cur_close_raises:
  assumes "connect w (DATABASE_URL w) = None" "fault w CURSOR = None"
    "fault w EXECUTE_UPDATE = None" "fault w FETCHONE = None"
    "find (\<lambda>r. id_col r = 42) (cases db) = Some r" "case_name r = Some n"
    "fault w EXECUTE_INSERT = None" "fault w COMMIT = None" "fault w CUR_CLOSE = Some m"
  shows "trace (fst (main w db)) =
      [Call CONNECT True, Call CURSOR True, Call EXECUTE_UPDATE True, Call FETCHONE True,
       Print (confirmation (take 50 n)), Call EXECUTE_INSERT True, Call COMMIT True,
       Print ''Activity logged for case 42'', Call CUR_CLOSE False,
       Print (''Error: '' @ m)]"
    and "committed (fst (main w db)) = both_applied w db"
    and "snd (try_block w db) = Some (Exception m)"
  using assms returning_some [of "cases db" r]
  by (auto simp: run_defs str_int_42 confirmation_def)

lemma run_conn_close_raises:
  assumes "connect w (DATABASE_URL w) = None" "fault w CURSOR = None"
    "fault w EXECUTE_UPDATE = None" "fault w FETCHONE = None"
    "find (\<lambda>r. id_col r = 42) (cases db) = Some r" "case_name r = Some n"
    "fault w EXECUTE_INSERT = None" "fault w COMMIT = None" "fault w CUR_CLOSE = None"
    "fault w CONN_CLOSE = Some m"
  shows "trace (fst (main w db)) =
      [Call CONNECT True, Call CURSOR True, Call EXECUTE_UPDATE True, Call FETCHONE True,
       Print (confirmation (take 50 n)), Call EXECUTE_INSERT True, Call COMMIT True,
       Print ''Activity logged for case 42'', Call CUR_CLOSE True, Call CONN_CLOSE False,
       Print (''Error: '' @ m)]"
    and "committed (fst (main w db)) = both_applied w db"
    and "snd (try_block w db) = Some (Exception m)"
  using assms returning_some [of "cases db" r]
  by (auto simp: run_defs str_int_42 confirmation_def)

lemma run_succeeds:
  assumes "connect w (DATABASE_URL w) = None" "fault w CURSOR = None"
    "fault w EXECUTE_UPDATE = None" "fault w FETCHONE = None"
    "find (\<lambda>r. id_col r = 42) (cases db) = Some r" "case_name r = Some n"
    "fault w EXECUTE_INSERT = None" "fault w COMMIT = None" "fault w CUR_CLOSE = None"
    "fault w CONN_CLOSE = None"
  shows "trace (fst (main w db)) =
      [Call CONNECT True, Call CURSOR True, Call EXECUTE_UPDATE True, Call FETCHONE True,
       Print (confirmation (take 50 n)), Call EXECUTE_INSERT True, Call COMMIT True,
       Print ''Activity logged for case 42'', Call CUR_CLOSE True, Call CONN_CLOSE True,
       Print ''Successfully cancelled case 42 portal submission'']"
    and "committed (fst (main w db)) = both_applied w db"
    and "snd (try_block w db) = None"
  using assms returning_some [of "cases db" r]
  by (auto simp: run_defs str_int_42 confirmation_def)

text \<open>
  Every run goes one of eleven ways, told apart by the first statement that raises.
\<close>

lemma run_cases:
  obtains (connect_raises) m where
      "connect w (DATABASE_URL w) = Some m"
      "trace (fst (main w db)) =
        [Call CONNECT False, Print (''Error: '' @ m)]"
      "committed (fst (main w db)) = db"
      "snd (try_block w db) = Some (Exception m)"
  | (cursor_raises) m where
      "connect w (DATABASE_URL w) = None" "fault w CURSOR = Some m"
      "trace (fst (main w db)) =
        [Call CONNECT True, Call CURSOR False, Print (''Error: '' @ m)]"
      "committed (fst (main w db)) = db"
      "snd (try_block w db) = Some (Exception m)"
  | (update_raises) m where
      "connect w (DATABASE_URL w) = None" "fault w CURSOR = None"
      "fault w EXECUTE_UPDATE = Some m"
      "trace (fst (main w db)) =
        [Call CONNECT True, Call CURSOR True, Call EXECUTE_UPDATE False,
         Print (''Error: '' @ m)]"
      "committed (fst (main w db)) = db"
      "snd (try_block w db) = Some (Exception m)"
  | (fetchone_raises) m where
      "connect w (DATABASE_URL w) = None" "fault w CURSOR = None"
      "fault w EXECUTE_UPDATE = None" "fault w FETCHONE = Some m"
      "trace (fst (main w db)) =
        [Call CONNECT True, Call CURSOR True, Call EXECUTE_UPDATE True, Call FETCHONE False,
         Print (''Error: '' @ m)]"
      "committed (fst (main w db)) = db"
      "snd (try_block w db) = Some (Exception m)"
  | (no_row)
      "connect w (DATABASE_URL w) = None" "fault w CURSOR = None"
      "fault w EXECUTE_UPDATE = None" "fault w FETCHONE = None"
      "find (\<lambda>r. id_col r = 42) (cases db) = None"
      "trace (fst (main w db)) =
        [Call CONNECT True, Call CURSOR True, Call EXECUTE_UPDATE True, Call FETCHONE True,
         Print (''Error: '' @ str_exception not_subscriptable)]"
      "committed (fst (main w db)) = db"
      "snd (try_block w db) = Some not_subscriptable"
  | (null_name) r where
      "connect w (DATABASE_URL w) = None" "fault w CURSOR = None"
      "fault w EXECUTE_UPDATE = None" "fault w FETCHONE = None"
      "find (\<lambda>r. id_col r = 42) (cases db) = Some r" "case_name r = None"
      "trace (fst (main w db)) =
        [Call CONNECT True, Call CURSOR True, Call EXECUTE_UPDATE True, Call FETCHONE True,
         Print (''Error: '' @ str_exception not_subscriptable)]"
      "committed (fst (main w db)) = db"
      "snd (try_block w db) = Some not_subscriptable"
  | (insert_raises) r n m where
      "connect w (DATABASE_URL w) = None" "fault w CURSOR = None"
      "fault w EXECUTE_UPDATE = None" "fault w FETCHONE = None"
      "find (\<lambda>r. id_col r = 42) (cases db) = Some r" "case_name r = Some n"
      "fault w EXECUTE_INSERT = Some m"
      "trace (fst (main w db)) =
        [Call CONNECT True, Call CURSOR True, Call EXECUTE_UPDATE True, Call FETCHONE True,
         Print (confirmation (take 50 n)), Call EXECUTE_INSERT False,
         Print (''Error: '' @ m)]"
      "committed (fst (main w db)) = db"
      "snd (try_block w db) = Some (Exception m)"
  | (commit_raises) r n m where
      "connect w (DATABASE_URL w) = None" "fault w CURSOR = None"
      "fault w EXECUTE_UPDATE = None" "fault w FETCHONE = None"
      "find (\<lambda>r. id_col r = 42) (cases db) = Some r" "case_name r = Some n"
      "fault w EXECUTE_INSERT = None" "fault w COMMIT = Some m"
      "trace (fst (main w db)) =
        [Call CONNECT True, Call CURSOR True, Call EXECUTE_UPDATE True, Call FETCHONE True,
         Print (confirmation (take 50 n)), Call EXECUTE_INSERT True, Call COMMIT False,
         Print (''Error: '' @ m)]"
      "committed (fst (main w db)) = db"
      "snd (try_block w db) = Some (Exception m)"
  | (cur_close_raises) r n m where
      "connect w (DATABASE_URL w) = None" "fault w CURSOR = None"
      "fault w EXECUTE_UPDATE = None" "fault w FETCHONE = None"
      "find (\<lambda>r. id_col r = 42) (cases db) = Some r" "case_name r = Some n"
      "fault w EXECUTE_INSERT = None" "fault w COMMIT = None" "fault w CUR_CLOSE = Some m"
      "trace (fst (main w db)) =
        [Call CONNECT True, Call CURSOR True, Call EXECUTE_UPDATE True, Call FETCHONE True,
         Print (confirmation (take 50 n)), Call EXECUTE_INSERT True, Call COMMIT True,
         Print ''Activity logged for case 42'', Call CUR_CLOSE False,
         Print (''Error: '' @ m)]"
      "committed (fst (main w db)) = both_applied w db"
      "snd (try_block w db) = Some (Exception m)"
  | (conn_close_raises) r n m where
      "connect w (DATABASE_URL w) = None" "fault w CURSOR = None"
      "fault w EXECUTE_UPDATE = None" "fault w FETCHONE = None"
      "find (\<lambda>r. id_col r = 42) (cases db) = Some r" "case_name r = Some n"
      "fault w EXECUTE_INSERT = None" "fault w COMMIT = None" "fault w CUR_CLOSE = None"
      "fault w CONN_CLOSE = Some m"
      "trace (fst (main w db)) =
        [Call CONNECT True, Call CURSOR True, Call EXECUTE_UPDATE True, Call FETCHONE True,
         Print (confirmation (take 50 n)), Call EXECUTE_INSERT True, Call COMMIT True,
         Print ''Activity logged for case 42'', Call CUR_CLOSE True, Call CONN_CLOSE False,
         Print (''Error: '' @ m)]"
      "committed (fst (main w db)) = both_applied w db"
      "snd (try_block w db) = Some (Exception m)"
  | (succeeds) r n where
      "connect w (DATABASE_URL w) = None" "fault w CURSOR = None"
      "fault w EXECUTE_UPDATE = None" "fault w FETCHONE = None"
      "find (\<lambda>r. id_col r = 42) (cases db) = Some r" "case_name r = Some n"
      "fault w EXECUTE_INSERT = None" "fault w COMMIT = None" "fault w CUR_CLOSE = None"
      "fault w CONN_CLOSE = None"
      "trace (fst (main w db)) =
        [Call CONNECT True, Call CURSOR True, Call EXECUTE_UPDATE True, Call FETCHONE True,
         Print (confirmation (take 50 n)), Call EXECUTE_INSERT True, Call COMMIT True,
         Print ''Activity logged for case 42'', Call CUR_CLOSE True, Call CONN_CLOSE True,
         Print ''Successfully cancelled case 42 portal submission'']"
      "committed (fst (main w db)) = both_applied w db"
      "snd (try_block w db) = None"
proof (rule ccontr)
  assume neg: "\<not> thesis"
  have c0: "connect w (DATABASE_URL w) = None"
    using neg connect_raises run_connect_raises [of w _ db]
    by (cases "connect w (DATABASE_URL w)") auto
  have c1: "fault w CURSOR = None"
    using neg cursor_raises [OF c0] run_cursor_raises [OF c0, of _ db]
    by (cases "fault w CURSOR") auto
  have c2: "fault w EXECUTE_UPDATE = None"
    using neg update_raises [OF c0 c1] run_update_raises [OF c0 c1, of _ db]
    by (cases "fault w EXECUTE_UPDATE") auto
  have c3: "fault w FETCHONE = None"
    using neg fetchone_raises [OF c0 c1 c2] run_fetchone_raises [OF c0 c1 c2, of _ db]
    by (cases "fault w FETCHONE") auto
  obtain r where c4: "find (\<lambda>r. id_col r = 42) (cases db) = Some r"
    using neg no_row [OF c0 c1 c2 c3] run_no_row [OF c0 c1 c2 c3, of db]
    by (cases "find (\<lambda>r. id_col r = 42) (cases db)") auto
  obtain n where c5: "case_name r = Some n"
    using neg null_name [OF c0 c1 c2 c3 c4] run_null_name [OF c0 c1 c2 c3 c4]
    by (cases "case_name r") auto
  have c6: "fault w EXECUTE_INSERT = None"
    using neg insert_raises [OF c0 c1 c2 c3 c4 c5] run_insert_raises [OF c0 c1 c2 c3 c4 c5]
    by (cases "fault w EXECUTE_INSERT") auto
  have c7: "fault w COMMIT = None"
    using neg commit_raises [OF c0 c1 c2 c3 c4 c5 c6] run_commit_raises [OF c0 c1 c2 c3 c4 c5 c6]
    by (cases "fault w COMMIT") auto
  have c8: "fault w CUR_CLOSE = None"
    using neg cur_close_raises [OF c0 c1 c2 c3 c4 c5 c6 c7] run_cur_close_raises [OF c0 c1 c2 c3 c4 c5 c6 c7]
    by (cases "fault w CUR_CLOSE") auto
  have c9: "fault w CONN_CLOSE = None"
    using neg conn_close_raises [OF c0 c1 c2 c3 c4 c5 c6 c7 c8] run_conn_close_raises [OF c0 c1 c2 c3 c4 c5 c6 c7 c8]
    by (cases "fault w CONN_CLOSE") auto
  show False
    using neg succeeds [OF c0 c1 c2 c3 c4 c5 c6 c7 c8 c9]
      run_succeeds [OF c0 c1 c2 c3 c4 c5 c6 c7 c8 c9] by blast
qed

section \<open>Facts about every run\<close>

lemma main_ends_normally: "snd (main w db) = Normal"
  by (simp add: main_def split: prod.split option.split py_exception.split)

lemma all_or_nothing:
  "committed (fst (main w db)) = db \<or> committed (fst (main w db)) = both_applied w db"
  by (rule run_cases [of w db]) simp_all

lemma succeeded_committed:
  "succeeded w db \<Longrightarrow> committed (fst (main w db)) = both_applied w db"
  by (rule run_cases [of w db]) (simp_all add: succeeded_def)

text \<open>The example runs that succeed.\<close>

lemma quiet_succeeds: "succeeded quiet db0"
  unfolding succeeded_def
  by (rule run_succeeds(3) [where r = row42]) (simp_all add: quiet_def db0_def row41_def row42_def)

lemma db_after_quiet: "database_after (main quiet db0) = both_applied quiet db0"
  using succeeded_committed [OF quiet_succeeds] by (simp add: database_after_def)

lemma later_succeeds: "succeeded later (database_after (main quiet db0))"
  unfolding succeeded_def db_after_quiet
  by (rule run_succeeds(3) [where r = "cancel_row row42"])
     (simp_all add: later_def quiet_def both_applied_def update_cases_def cancel_row_def
       db0_def row41_def row42_def)

section \<open>The update\<close>

text \<open>
  C1. After a successful run, every row of \<open>cases\<close> that had \<open>id = 42\<close> has status
  \<open>sent\<close>, a NULL \<open>portal_url\<close> and the last portal status
  \<open>Cancelled - Odessa account locked\<close>, in the committed database.
\<close>

theorem target_row_cancelled:
  assumes "succeeded w db" and "i < length (cases db)" and "id_col (cases db ! i) = 42"
  shows "status (cases (database_after (main w db)) ! i) = Some ''sent'' \<and>
         portal_url (cases (database_after (main w db)) ! i) = None \<and>
         last_portal_status (cases (database_after (main w db)) ! i) =
           Some ''Cancelled - Odessa account locked''"
  using assms
  by (simp add: database_after_def succeeded_committed both_applied_def update_cases_def
      cancel_row_def)

theorem target_row_cancelled_witness:
  "succeeded quiet db0 \<and> 1 < length (cases db0) \<and> id_col (cases db0 ! 1) = 42 \<and>
   portal_url (cases db0 ! 1) = Some ''https://odessa.example.org/portal/1093'' \<and>
   status (cases (database_after (main quiet db0)) ! 1) = Some ''sent'' \<and>
   portal_url (cases (database_after (main quiet db0)) ! 1) = None \<and>
   last_portal_status (cases (database_after (main quiet db0)) ! 1) =
     Some ''Cancelled - Odessa account locked''"
  using target_row_cancelled [of quiet db0 1] quiet_succeeds
  by (simp add: db0_def row42_def)

text \<open>
  C2. Whatever happens in the run, the table \<open>cases\<close> keeps its rows in place; a row
  whose \<open>id\<close> is not 42 is the same row afterwards, and in every row the columns
  \<open>id\<close>, \<open>case_name\<close> and all columns the UPDATE does not name are unchanged.
\<close>

theorem other_rows_and_columns_unchanged:
  "length (cases (database_after (main w db))) = length (cases db) \<and>
   (\<forall>i < length (cases db).
      (id_col (cases db ! i) \<noteq> 42 \<longrightarrow>
         cases (database_after (main w db)) ! i = cases db ! i) \<and>
      id_col (cases (database_after (main w db)) ! i) = id_col (cases db ! i) \<and>
      case_name (cases (database_after (main w db)) ! i) = case_name (cases db ! i) \<and>
      case_row.more (cases (database_after (main w db)) ! i) = case_row.more (cases db ! i))"
  using all_or_nothing [of w db]
  by (auto simp: database_after_def both_applied_def update_cases_def cancel_row_def)

theorem other_rows_and_columns_unchanged_witness:
  "cases (database_after (main quiet db0)) ! 0 = row41 \<and>
   id_col (cases (database_after (main quiet db0)) ! 1) = 42 \<and>
   case_name (cases (database_after (main quiet db0)) ! 1) = case_name row42 \<and>
   case_row.more (cases (database_after (main quiet db0)) ! 1) = case_row.more row42"
  using other_rows_and_columns_unchanged [of quiet db0]
  by (simp add: db0_def row41_def row42_def)

section \<open>The activity log\<close>

text \<open>
  C3. A successful run appends exactly one row to \<open>activity_log\<close>, with
  \<open>case_id = 42\<close> and event type \<open>portal_cancelled\<close>. A second successful run on the
  database the first one left appends a second such row, so the second run changes the
  database again: the operation is not idempotent.
\<close>

theorem one_log_row_per_successful_run:
  assumes "succeeded w db"
  shows "activity_log (database_after (main w db)) = activity_log db @ [new_activity w] \<and>
         case_id (new_activity w) = 42 \<and>
         event_type (new_activity w) = Some ''portal_cancelled'' \<and>
         (succeeded w' (database_after (main w db)) \<longrightarrow>
            activity_log (database_after (main w' (database_after (main w db)))) =
              activity_log db @ [new_activity w, new_activity w'] \<and>
            case_id (new_activity w') = 42 \<and>
            event_type (new_activity w') = Some ''portal_cancelled'' \<and>
            database_after (main w' (database_after (main w db))) \<noteq>
              database_after (main w db))"
proof -
  have once: "activity_log (database_after (main v d)) = activity_log d @ [new_activity v]"
    if "succeeded v d" for v and d :: "'a database"
    using that by (simp add: database_after_def succeeded_committed both_applied_def)
  have tag: "case_id (new_activity v) = 42 \<and> event_type (new_activity v) = Some ''portal_cancelled''"
    for v by (simp add: new_activity_def)
  have twice: "activity_log (database_after (main w' (database_after (main w db)))) =
      activity_log db @ [new_activity w, new_activity w']"
    and differ: "database_after (main w' (database_after (main w db))) \<noteq>
      database_after (main w db)"
    if "succeeded w' (database_after (main w db))"
  proof -
    from once [OF that] once [OF assms]
    show "activity_log (database_after (main w' (database_after (main w db)))) =
      activity_log db @ [new_activity w, new_activity w']" by simp
    then have "length (activity_log (database_after (main w' (database_after (main w db))))) \<noteq>
      length (activity_log (database_after (main w db)))"
      using once [OF assms] by simp
    then show "database_after (main w' (database_after (main w db))) \<noteq>
      database_after (main w db)" by auto
  qed
  from once [OF assms] tag twice differ show ?thesis by blast
qed

theorem one_log_row_per_successful_run_witness:
  "succeeded quiet db0 \<and> succeeded later (database_after (main quiet db0)) \<and>
   activity_log db0 = [] \<and>
   activity_log (database_after (main quiet db0)) = [new_activity quiet] \<and>
   activity_log (database_after (main later (database_after (main quiet db0)))) =
     [new_activity quiet, new_activity later]"
  using one_log_row_per_successful_run [of quiet db0 later] quiet_succeeds later_succeeds
  by (simp add: db0_def)

text \<open>The example runs that fail.\<close>

lemma no_dsn_raises:
  "connect no_dsn (DATABASE_URL no_dsn) = Some ''missing dsn and no parameters''"
  by (simp add: no_dsn_def quiet_def)

lemma insert_rejected_run:
  "events (main insert_rejected db0) =
     [Call CONNECT True, Call CURSOR True, Call EXECUTE_UPDATE True, Call FETCHONE True,
      Print (confirmation ''Odessa Police Department body camera footage, inci''),
      Call EXECUTE_INSERT False,
      Print ''Error: permission denied for table activity_log'']"
  unfolding events_def
  by (subst run_insert_raises(1) [where r = row42 and n = "the (case_name row42)"])
     (simp_all add: insert_rejected_def quiet_def db0_def row41_def row42_def)

lemma commit_lost_run:
  "events (main commit_lost db0) =
     [Call CONNECT True, Call CURSOR True, Call EXECUTE_UPDATE True, Call FETCHONE True,
      Print (confirmation ''Odessa Police Department body camera footage, inci''),
      Call EXECUTE_INSERT True, Call COMMIT False,
      Print ''Error: server closed the connection unexpectedly'']"
  unfolding events_def
  by (subst run_commit_raises(1) [where r = row42 and n = "the (case_name row42)"])
     (simp_all add: commit_lost_def quiet_def db0_def row41_def row42_def)

lemma quiet_run:
  "events (main quiet db0) =
     [Call CONNECT True, Call CURSOR True, Call EXECUTE_UPDATE True, Call FETCHONE True,
      Print (confirmation ''Odessa Police Department body camera footage, inci''),
      Call EXECUTE_INSERT True, Call COMMIT True, Print ''Activity logged for case 42'',
      Call CUR_CLOSE True, Call CONN_CLOSE True,
      Print ''Successfully cancelled case 42 portal submission'']"
  unfolding events_def
  by (subst run_succeeds(1) [where r = row42 and n = "the (case_name row42)"])
     (simp_all add: quiet_def db0_def row41_def row42_def)

section \<open>The transaction\<close>

text \<open>
  C4. The two statements are one transaction. COMMIT is called only after the UPDATE and
  the INSERT have both returned, and a COMMIT that returns makes both changes the
  committed content of the database, with nothing else changed; in every other run
  the database is as it was before the run. In particular, when the INSERT raises (the
  UPDATE has returned by then), COMMIT is never called and neither change is committed.
\<close>

theorem single_transaction:
  "(called COMMIT (events (main w db)) \<longrightarrow>
      Call EXECUTE_UPDATE True \<in> set (before COMMIT (events (main w db))) \<and>
      Call EXECUTE_INSERT True \<in> set (before COMMIT (events (main w db)))) \<and>
   (Call COMMIT True \<in> set (events (main w db)) \<longrightarrow>
      database_after (main w db) = both_applied w db \<and>
      cases (database_after (main w db)) = update_cases (cases db) \<and>
      activity_log (database_after (main w db)) = activity_log db @ [new_activity w]) \<and>
   (Call COMMIT True \<notin> set (events (main w db)) \<longrightarrow>
      database_after (main w db) = db) \<and>
   (Call EXECUTE_INSERT False \<in> set (events (main w db)) \<longrightarrow>
      Call EXECUTE_UPDATE True \<in> set (before EXECUTE_INSERT (events (main w db))) \<and>
      \<not> called COMMIT (events (main w db)) \<and>
      database_after (main w db) = db) \<and>
   (database_after (main w db) = db \<or> database_after (main w db) = both_applied w db)"
  by (rule run_cases [of w db])
     (simp_all add: events_def database_after_def called_def before_def both_applied_def)

theorem single_transaction_witness:
  "Call EXECUTE_INSERT False \<in> set (events (main insert_rejected db0)) \<and>
   \<not> called COMMIT (events (main insert_rejected db0)) \<and>
   database_after (main insert_rejected db0) = db0 \<and>
   Call COMMIT True \<in> set (events (main quiet db0)) \<and>
   Call EXECUTE_INSERT True \<in> set (before COMMIT (events (main quiet db0))) \<and>
   cases (database_after (main quiet db0)) = [row41, cancel_row row42] \<and>
   activity_log (database_after (main quiet db0)) = [new_activity quiet] \<and>
   database_after (main quiet db0) \<noteq> db0"
proof -
  note rejected = single_transaction [of insert_rejected db0]
  note accepted = single_transaction [of quiet db0]
  have inserted: "Call EXECUTE_INSERT False \<in> set (events (main insert_rejected db0))"
    by (simp add: insert_rejected_run)
  have committed: "Call COMMIT True \<in> set (events (main quiet db0))"
    by (simp add: quiet_run)
  have commit_called: "called COMMIT (events (main quiet db0))"
    by (simp add: quiet_run called_def)
  have rows: "update_cases (cases db0) = [row41, cancel_row row42]"
    by (simp add: update_cases_def db0_def row41_def row42_def)
  have empty: "activity_log db0 = []"
    by (simp add: db0_def)
  from rejected inserted
  have undone: "\<not> called COMMIT (events (main insert_rejected db0))"
    "database_after (main insert_rejected db0) = db0"
    by blast+
  from accepted commit_called
  have ordered: "Call EXECUTE_INSERT True \<in> set (before COMMIT (events (main quiet db0)))"
    by blast
  from accepted committed
  have applied: "cases (database_after (main quiet db0)) = update_cases (cases db0)"
    "activity_log (database_after (main quiet db0)) = activity_log db0 @ [new_activity quiet]"
    by blast+
  from applied(2) have differs: "database_after (main quiet db0) \<noteq> db0"
    by auto
  from inserted committed undone ordered applied differs rows empty show ?thesis
    by simp
qed

section \<open>Failures\<close>

text \<open>
  C5. When no row of \<open>cases\<close> has \<open>id = 42\<close>, the output of the run is a single error
  line, the INSERT is never executed, COMMIT is never called, and the database is as it
  was. When no driver call raises before, the error is the TypeError of \<open>result[0]\<close>,
  \<open>fetchone\<close> having returned \<open>None\<close>.
\<close>

theorem missing_row_fails_before_insert:
  assumes "\<forall>r \<in> set (cases db). id_col r \<noteq> 42"
  shows "(\<exists>m. stdout (main w db) = [''Error: '' @ m]) \<and>
         \<not> called EXECUTE_INSERT (events (main w db)) \<and>
         \<not> called COMMIT (events (main w db)) \<and>
         database_after (main w db) = db \<and>
         (connect w (DATABASE_URL w) = None \<and> fault w CURSOR = None \<and>
          fault w EXECUTE_UPDATE = None \<and> fault w FETCHONE = None \<longrightarrow>
            stdout (main w db) = [''Error: '' @ str_exception not_subscriptable])"
proof -
  from assms have none: "find (\<lambda>r. id_col r = 42) (cases db) = None"
    by (simp add: find_None_iff)
  then show ?thesis
    by (rule_tac run_cases [of w db])
       (simp_all add: events_def database_after_def called_def stdout_def)
qed

theorem missing_row_fails_before_insert_witness:
  "map id_col (cases db_without_42) = [41] \<and>
   stdout (main quiet db_without_42) = [''Error: '' @ str_exception not_subscriptable] \<and>
   \<not> called EXECUTE_INSERT (events (main quiet db_without_42)) \<and>
   database_after (main quiet db_without_42) = db_without_42"
  using missing_row_fails_before_insert [of db_without_42 quiet]
  by (simp add: db_without_42_def row41_def quiet_def)

text \<open>
  C6. When \<open>psycopg2.connect\<close> raises, because the environment variable is absent or
  because the connection cannot be established, the run prints the one line
  \<open>Error: <message>\<close> and the process then ends normally, with exit status 0 as after a
  successful run: the failure has no exit signal of its own.
\<close>

theorem connect_failure_exits_normally:
  assumes "connect w (DATABASE_URL w) = Some m"
  shows "stdout (main w db) = [''Error: '' @ m] \<and>
         snd (main w db) = Normal \<and>
         exit_status (snd (main w db)) = 0"
  using assms
  by (simp add: stdout_def run_connect_raises(1) main_ends_normally)

theorem connect_failure_exits_normally_witness:
  "connect no_dsn (DATABASE_URL no_dsn) = Some ''missing dsn and no parameters'' \<and>
   stdout (main no_dsn db0) = [''Error: missing dsn and no parameters''] \<and>
   exit_status (snd (main no_dsn db0)) = 0"
  using connect_failure_exits_normally [of no_dsn "''missing dsn and no parameters''" db0]
    no_dsn_raises
  by simp

text \<open>
  The claim as the specification states it, a failure exit status distinct from that of
  a success, fails where the environment variable is absent: the status is 0, the
  status of the successful example run.
\<close>

theorem connect_failure_exit_status_counterexample:
  "DATABASE_URL no_dsn = None \<and>
   connect no_dsn (DATABASE_URL no_dsn) = Some ''missing dsn and no parameters'' \<and>
   \<not> exit_status (snd (main no_dsn db0)) \<noteq> 0 \<and>
   succeeded quiet db0 \<and>
   exit_status (snd (main no_dsn db0)) = exit_status (snd (main quiet db0))"
  by (simp add: main_ends_normally quiet_succeeds no_dsn_raises) (simp add: no_dsn_def)

text \<open>
  C7. Whatever statement of the \<open>try\<close> block raises, and whatever it raises, the
  handler prints \<open>Error: \<close> followed by the text of the exception as the last line of
  the output, this is the only line of the output that starts with \<open>Error: \<close>, and the
  process ends normally: nothing is raised again.
\<close>

theorem every_exception_is_caught_and_printed:
  assumes "snd (try_block w db) = Some e"
  shows "last (stdout (main w db)) = ''Error: '' @ str_exception e \<and>
         filter (\<lambda>l. take 7 l = ''Error: '') (stdout (main w db)) =
           [''Error: '' @ str_exception e] \<and>
         snd (main w db) = Normal \<and>
         exit_status (snd (main w db)) = 0"
  using assms
  by (rule_tac run_cases [of w db])
     (auto simp: stdout_def main_ends_normally confirmation_def)

theorem every_exception_is_caught_and_printed_witness:
  "snd (try_block commit_lost db0) =
     Some (Exception ''server closed the connection unexpectedly'') \<and>
   last (stdout (main commit_lost db0)) =
     ''Error: server closed the connection unexpectedly'' \<and>
   snd (main commit_lost db0) = Normal"
proof -
  have raised: "snd (try_block commit_lost db0) =
      Some (Exception ''server closed the connection unexpectedly'')"
    by (rule run_commit_raises(3) [where r = row42 and n = "the (case_name row42)"])
       (simp_all add: commit_lost_def quiet_def db0_def row41_def row42_def)
  from every_exception_is_caught_and_printed [OF raised] raised
  show ?thesis by simp
qed

section \<open>The confirmation line\<close>

text \<open>
  C8. Once \<open>fetchone\<close> has returned the row with \<open>id = 42\<close>, the first line printed
  shows the first 50 characters of its name: at most 50 characters, and exactly 50
  when the stored name is longer.
\<close>

theorem printed_name_is_truncated:
  assumes "find (\<lambda>r. id_col r = 42) (cases db) = Some r" and "case_name r = Some n"
    and "Call FETCHONE True \<in> set (events (main w db))"
  shows "hd (stdout (main w db)) =
           ''Case 42 updated: ID=42, Name='' @ take 50 n @ '', Status=sent'' \<and>
         length (take 50 n) \<le> 50 \<and>
         (50 < length n \<longrightarrow> length (take 50 n) = 50 \<and> take 50 n \<noteq> n)"
proof -
  have "hd (stdout (main w db)) = confirmation (take 50 n)"
    using assms
    by (rule_tac run_cases [of w db]) (simp_all add: stdout_def events_def)
  moreover have "take 50 n \<noteq> n" if "50 < length n"
  proof
    assume "take 50 n = n"
    then have "length (take 50 n) = length n" by simp
    with that show False by simp
  qed
  ultimately show ?thesis by (simp add: confirmation_def)
qed

theorem printed_name_is_truncated_witness:
  "find (\<lambda>r. id_col r = 42) (cases db0) = Some row42 \<and>
   length (the (case_name row42)) = 63 \<and>
   Call FETCHONE True \<in> set (events (main quiet db0)) \<and>
   hd (stdout (main quiet db0)) =
     ''Case 42 updated: ID=42, Name=Odessa Police Department body camera footage, inci, Status=sent''"
  using printed_name_is_truncated [of db0 row42 "the (case_name row42)" quiet]
  by (simp add: quiet_run) (simp add: db0_def row41_def row42_def)

text \<open>
  C9. When \<open>psycopg2.connect\<close> raises on the value of the environment variable,
  be it unset or not usable, the run prints an error line, the call of \<open>connect\<close> is
  the only driver call of the run, so neither the UPDATE nor the INSERT is executed,
  and the database is as it was. The script does not look at the value itself:
  whether an unset value is refused is the driver's decision.
\<close>

theorem no_connection_no_statement:
  assumes "connect w (DATABASE_URL w) = Some m"
  shows "last (stdout (main w db)) = ''Error: '' @ m \<and>
         calls (main w db) = [(CONNECT, False)] \<and>
         \<not> called EXECUTE_UPDATE (events (main w db)) \<and>
         \<not> called EXECUTE_INSERT (events (main w db)) \<and>
         database_after (main w db) = db"
  using assms
  by (simp add: stdout_def calls_def events_def called_def database_after_def
      run_connect_raises)

theorem no_connection_no_statement_witness:
  "DATABASE_URL no_dsn = None \<and>
   connect no_dsn (DATABASE_URL no_dsn) = Some ''missing dsn and no parameters'' \<and>
   calls (main no_dsn db0) = [(CONNECT, False)] \<and>
   database_after (main no_dsn db0) = db0"
  using no_connection_no_statement [of no_dsn "''missing dsn and no parameters''" db0]
    no_dsn_raises
  by (simp add: no_dsn_def)

text \<open>
  With the variable unset alone the run is not bound to fail: where the driver takes
  the absent connection string, the script goes on, no error line is printed, the
  UPDATE and the INSERT are executed and committed.
\<close>

theorem unset_variable_counterexample:
  "DATABASE_URL lenient = None \<and>
   stdout (main lenient db0) =
     [confirmation ''Odessa Police Department body camera footage, inci'',
      ''Activity logged for case 42'',
      ''Successfully cancelled case 42 portal submission''] \<and>
   Call EXECUTE_UPDATE True \<in> set (events (main lenient db0)) \<and>
   Call EXECUTE_INSERT True \<in> set (events (main lenient db0)) \<and>
   Call COMMIT True \<in> set (events (main lenient db0)) \<and>
   cases (database_after (main lenient db0)) = [row41, cancel_row row42] \<and>
   activity_log (database_after (main lenient db0)) = [new_activity lenient] \<and>
   database_after (main lenient db0) \<noteq> db0"
proof -
  have unset: "DATABASE_URL lenient = None"
    by (simp add: lenient_def)
  have run: "trace (fst (main lenient db0)) =
      [Call CONNECT True, Call CURSOR True, Call EXECUTE_UPDATE True, Call FETCHONE True,
       Print (confirmation ''Odessa Police Department body camera footage, inci''),
       Call EXECUTE_INSERT True, Call COMMIT True, Print ''Activity logged for case 42'',
       Call CUR_CLOSE True, Call CONN_CLOSE True,
       Print ''Successfully cancelled case 42 portal submission'']"
    by (subst run_succeeds(1) [where r = row42 and n = "the (case_name row42)"])
       (simp_all add: lenient_def quiet_def db0_def row41_def row42_def)
  have after: "committed (fst (main lenient db0)) = both_applied lenient db0"
    by (rule run_succeeds(2) [where r = row42 and n = "the (case_name row42)"])
       (simp_all add: lenient_def quiet_def db0_def row41_def row42_def)
  have rows: "update_cases (cases db0) = [row41, cancel_row row42]"
    by (simp add: update_cases_def db0_def row41_def row42_def)
  have log: "activity_log (both_applied lenient db0) = [new_activity lenient]"
    by (simp add: both_applied_def db0_def)
  have "activity_log (both_applied lenient db0) \<noteq> activity_log db0"
    by (simp add: log) (simp add: db0_def)
  then have differs: "both_applied lenient db0 \<noteq> db0"
    by auto
  from unset run after rows log differs show ?thesis
    by (simp add: stdout_def events_def database_after_def both_applied_def)
qed

section \<open>Order of output and database calls\<close>

text \<open>
  C10. The confirmation line is printed before the INSERT is executed and before COMMIT
  is called. A run in which the INSERT or COMMIT raises has therefore printed the
  confirmation line, followed by the error line, and has left the database as it
  was.
\<close>

theorem confirmation_printed_before_commit:
  "(called EXECUTE_INSERT (events (main w db)) \<longrightarrow>
      (\<exists>shown. Print (confirmation shown) \<in>
         set (before EXECUTE_INSERT (events (main w db))))) \<and>
   (called COMMIT (events (main w db)) \<longrightarrow>
      (\<exists>shown. Print (confirmation shown) \<in> set (before COMMIT (events (main w db))))) \<and>
   (Call EXECUTE_INSERT False \<in> set (events (main w db)) \<or>
    Call COMMIT False \<in> set (events (main w db)) \<longrightarrow>
      (\<exists>shown m. stdout (main w db) = [confirmation shown, ''Error: '' @ m]) \<and>
      database_after (main w db) = db)"
  by (rule run_cases [of w db])
     (auto simp: events_def database_after_def called_def before_def stdout_def)

theorem confirmation_printed_before_commit_witness:
  "Call COMMIT False \<in> set (events (main commit_lost db0)) \<and>
   stdout (main commit_lost db0) =
     [confirmation ''Odessa Police Department body camera footage, inci'',
      ''Error: server closed the connection unexpectedly''] \<and>
   database_after (main commit_lost db0) = db0"
  using confirmation_printed_before_commit [of commit_lost db0]
  by (simp add: commit_lost_run) (simp add: stdout_def events_def [symmetric] commit_lost_run)

end
